theory Spec2Isabelle
  imports Main
begin

section \<open>The soundboard's command handlers (src/data.ts)\<close>

text \<open>
  The module \<open>data.ts\<close> declares five persistent stores (prefix, users, preferences,
  aliases, cooldowns), a player, and the handlers of the chat commands. The handlers are
  embedded as functions from a state to a state. The state holds the current value of
  every store, the player, and the lines written with \<open>console.log\<close>.

  Conventions of the embedding:
  \<^item> a JavaScript object used as a dictionary (\<open>Record<string, T>\<close>, the compiled enum
    \<open>Role\<close>) is a map over its own keys; \<open>player.sounds\<close> is a set of names;
  \<^item> the operator \<open>in\<close> also accepts the keys that every plain object inherits from
    \<open>Object.prototype\<close>: the tests \<open>role in Role\<close>, \<open>key in prefs.get()\<close> and the
    \<open>name in aliases.get()\<close> of \<open>alias set\<close> are embedded with \<open>has_key\<close>, and a read
    under an inherited key gives the inherited member;
  \<^item> the names of sounds and the names given to the play and cooldown commands are taken
    to differ from those inherited keys, so the alias lookup of these commands and their
    tests against \<open>player.sounds\<close> and the cooldown table are membership among own keys;
  \<^item> \<open>store.update(f)\<close> replaces the store's value by \<open>f\<close> of its current value;
  \<^item> chat text is ASCII: \<open>toLowerCase\<close> and \<open>toUpperCase\<close> act on the letters A to Z
    and a to z and leave every other character as it is;
  \<^item> numbers of milliseconds are integers;
  \<^item> handler arguments are strings, as the handlers' parameter types say.
\<close>

subsection \<open>Strings\<close>

definition upper_letters :: string where
  "upper_letters = ''ABCDEFGHIJKLMNOPQRSTUVWXYZ''"

definition lower_letters :: string where
  "lower_letters = ''abcdefghijklmnopqrstuvwxyz''"

definition toLowerCase_char :: "char \<Rightarrow> char" where
  "toLowerCase_char c =
     (case map_of (zip upper_letters lower_letters) c of Some d \<Rightarrow> d | None \<Rightarrow> c)"

definition toUpperCase_char :: "char \<Rightarrow> char" where
  "toUpperCase_char c =
     (case map_of (zip lower_letters upper_letters) c of Some d \<Rightarrow> d | None \<Rightarrow> c)"

definition toLowerCase :: "string \<Rightarrow> string" where
  "toLowerCase s = map toLowerCase_char s"

text \<open>
  Modelled from the spec: \<open>capitalize\<close> of \<open>core/util\<close> is not among the sources. The
  spec describes the role lookup as "capitalize first letter, lowercase rest"; the
  lowercasing is the caller's \<open>role.toLowerCase()\<close>, so \<open>capitalize\<close> is the first half.
\<close>

definition capitalize :: "string \<Rightarrow> string" where
  "capitalize s = (case s of [] \<Rightarrow> [] | c # cs \<Rightarrow> toUpperCase_char c # cs)"

definition is_digit :: "char \<Rightarrow> bool" where
  "is_digit c = (c \<in> set ''0123456789'')"

definition is_letter :: "char \<Rightarrow> bool" where
  "is_letter c = (c \<in> set upper_letters \<or> c \<in> set lower_letters)"

text \<open>
  \<open>Number.isNaN(Number(s))\<close> for a string \<open>s\<close>, after the grammar StringNumericLiteral
  of ECMAScript: white space is trimmed; the empty string is 0; otherwise the text is a
  binary, octal or hexadecimal integer literal, or an optionally signed decimal literal
  (\<open>Infinity\<close>, digits with an optional fraction and exponent); everything else is NaN.
\<close>

definition is_white :: "char \<Rightarrow> bool" where
  "is_white c = (c \<in> set [CHR 0x09, CHR 0x0A, CHR 0x0B, CHR 0x0C, CHR 0x0D, CHR 0x20, CHR 0xA0])"

definition trim :: "string \<Rightarrow> string" where
  "trim s = rev (dropWhile is_white (rev (dropWhile is_white s)))"

definition ExponentPart_opt :: "string \<Rightarrow> bool" where
  "ExponentPart_opt s =
     (case s of
        [] \<Rightarrow> True
      | e # r \<Rightarrow>
          (e = CHR ''e'' \<or> e = CHR ''E'') \<and>
          (let ds = (case r of
                       [] \<Rightarrow> []
                     | g # r' \<Rightarrow> if g = CHR ''+'' \<or> g = CHR ''-'' then r' else r)
           in ds \<noteq> [] \<and> list_all is_digit ds))"

definition StrUnsignedDecimalLiteral :: "string \<Rightarrow> bool" where
  "StrUnsignedDecimalLiteral s =
     (s = ''Infinity'' \<or>
      (let ip = takeWhile is_digit s; r = dropWhile is_digit s
       in case r of
            [] \<Rightarrow> ip \<noteq> []
          | d # r' \<Rightarrow>
              if d = CHR ''.''
              then (ip \<noteq> [] \<or> takeWhile is_digit r' \<noteq> []) \<and>
                   ExponentPart_opt (dropWhile is_digit r')
              else ip \<noteq> [] \<and> ExponentPart_opt r))"

definition StrDecimalLiteral :: "string \<Rightarrow> bool" where
  "StrDecimalLiteral s =
     (case s of
        [] \<Rightarrow> False
      | g # r \<Rightarrow>
          if g = CHR ''+'' \<or> g = CHR ''-'' then StrUnsignedDecimalLiteral r
          else StrUnsignedDecimalLiteral s)"

definition NonDecimalIntegerLiteral :: "string \<Rightarrow> bool" where
  "NonDecimalIntegerLiteral s =
     (case s of
        z # p # ds \<Rightarrow>
          z = CHR ''0'' \<and> ds \<noteq> [] \<and>
          ((p \<in> set ''bB'' \<and> list_all (\<lambda>c. c \<in> set ''01'') ds) \<or>
           (p \<in> set ''oO'' \<and> list_all (\<lambda>c. c \<in> set ''01234567'') ds) \<or>
           (p \<in> set ''xX'' \<and> list_all (\<lambda>c. c \<in> set ''0123456789abcdefABCDEF'') ds))
      | _ \<Rightarrow> False)"

definition isNaN_Number :: "string \<Rightarrow> bool" where
  "isNaN_Number s =
     (let t = trim s
      in \<not> (t = [] \<or> NonDecimalIntegerLiteral t \<or> StrDecimalLiteral t))"

subsection \<open>Inherited keys\<close>

text \<open>
  The property names of \<open>Object.prototype\<close>. A plain object (an object literal, a spread
  copy, the compiled enum) inherits them, and \<open>k in obj\<close> is true for each of them.
\<close>

definition Object_prototype_keys :: "string list" where
  "Object_prototype_keys =
     [''constructor'', ''__defineGetter__'', ''__defineSetter__'', ''hasOwnProperty'',
      ''__lookupGetter__'', ''__lookupSetter__'', ''isPrototypeOf'',
      ''propertyIsEnumerable'', ''toString'', ''valueOf'', ''__proto__'',
      ''toLocaleString'']"

definition has_key :: "string \<Rightarrow> (string \<rightharpoonup> 'a) \<Rightarrow> bool" where
  "has_key k obj = (k \<in> dom obj \<or> k \<in> set Object_prototype_keys)"

text \<open>
  The text of an inherited member in a template string: \<open>__proto__\<close> reads the
  prototype, an object; every other key reads a native function (printed as V8 does).
\<close>

definition inherited_text :: "string \<Rightarrow> string" where
  "inherited_text k =
     (if k = ''__proto__'' then ''[object Object]''
      else ''function '' @ k @ ''() { [native code] }'')"

subsection \<open>Store keys\<close>

text \<open>
  \<open>channel\<close> is the page's location hash without its first character, or undefined
  (\<open>None\<close>) when the hash is empty. \<open>storeKey\<close> tests its optional argument for
  truthiness: undefined and the empty string both give the fixed key.
\<close>

definition channel :: "string \<Rightarrow> string option" where
  "channel hash = (if hash \<noteq> [] then Some (drop 1 hash) else None)"

definition storeKey :: "string \<Rightarrow> string option \<Rightarrow> string" where
  "storeKey key base =
     (case base of
        None \<Rightarrow> ''[[empty]]''
      | Some b \<Rightarrow> if b \<noteq> [] then key @ ''.'' @ b else ''[[empty]]'')"

text \<open>The keys under which the five stores of \<open>Stores\<close> are created, in its order.\<close>

definition Stores_keys :: "string option \<Rightarrow> string list" where
  "Stores_keys ch =
     [storeKey ''prefix'' ch, storeKey ''users'' ch, storeKey ''preferences'' ch,
      storeKey ''aliases'' ch, storeKey ''cooldowns'' ch]"

subsection \<open>Data model\<close>

datatype Role = Role_None | Role_User | Role_Editor | Role_Streamer

text \<open>
  The compiled enum object has the four names as keys, mapped to their numbers, and the
  four numbers as keys, mapped back to the names. A value read from it is one or the
  other, or, under an inherited key, the member of \<open>Object.prototype\<close> of that name.
\<close>

datatype Role_value = Ordinal Role | Label string | Inherited string

definition Role_obj :: "string \<rightharpoonup> Role_value" where
  "Role_obj = map_of
     [(''None'', Ordinal Role_None), (''User'', Ordinal Role_User),
      (''Editor'', Ordinal Role_Editor), (''Streamer'', Ordinal Role_Streamer),
      (''0'', Label ''None''), (''1'', Label ''User''),
      (''2'', Label ''Editor''), (''3'', Label ''Streamer'')]"

text \<open>The read \<open>Role[k]\<close> for a key \<open>k\<close> that passed \<open>k in Role\<close>.\<close>

definition Role_member :: "string \<Rightarrow> Role_value" where
  "Role_member k = (case Role_obj k of Some v \<Rightarrow> v | None \<Rightarrow> Inherited k)"

text \<open>\<open>Object.keys(Role)\<close>: integer keys first, then the names in insertion order.\<close>

definition Role_keys :: "string list" where
  "Role_keys = [''0'', ''1'', ''2'', ''3'', ''None'', ''User'', ''Editor'', ''Streamer'']"

definition roles :: "string list" where
  "roles = filter isNaN_Number Role_keys"

record User =
  name :: string
  role :: Role_value

type_synonym Users = "string \<rightharpoonup> User"

type_synonym Preferences = "string \<rightharpoonup> bool"

definition defaultPrefs :: Preferences where
  "defaultPrefs = [''autoplay'' \<mapsto> False]"

type_synonym Aliases = "string \<rightharpoonup> string"

record Cooldown =
  perUser :: int
  perSound :: int

type_synonym Cooldowns = "string \<rightharpoonup> Cooldown"

text \<open>
  Modelled from the spec: the class \<open>Player\<close> of \<open>core/player\<close> is not among the
  sources. The spec gives its interface: \<open>sounds\<close>, the set of known sound names;
  \<open>playing\<close>, the name of the sound being played or none; \<open>play(sound, requestedBy)\<close> and
  \<open>stop()\<close>. The model records every invocation; \<open>play\<close> makes the sound the one
  being played and \<open>stop\<close> clears it.
\<close>

datatype Player_call = Play_call string string | Stop_call

record Player =
  sounds :: "string set"
  playing :: "string option"
  invoked :: "Player_call list"

definition Player_play :: "string \<Rightarrow> string \<Rightarrow> Player \<Rightarrow> Player" where
  "Player_play s requestedBy p =
     p\<lparr>playing := Some s, invoked := invoked p @ [Play_call s requestedBy]\<rparr>"


text \<open>The truthiness of \<open>player.playing\<close>: none and the empty string are falsy.\<close>

definition truthy :: "string option \<Rightarrow> bool" where
  "truthy v = (case v of None \<Rightarrow> False | Some s \<Rightarrow> s \<noteq> [])"

record state =
  prefix :: string
  users :: Users
  prefs :: Preferences
  aliases :: Aliases
  cooldowns :: Cooldowns
  player :: Player
  console :: "string list"
  tts :: "string list"

text \<open>The five stores of a state, to say that a handler changed none of them.\<close>

definition stores :: "state \<Rightarrow> string \<times> Users \<times> Preferences \<times> Aliases \<times> Cooldowns" where
  "stores st = (prefix st, users st, prefs st, aliases st, cooldowns st)"

definition log :: "string \<Rightarrow> state \<Rightarrow> state" where
  "log line st = st\<lparr>console := console st @ [line]\<rparr>"

subsection \<open>Durations\<close>

text \<open>
  Modelled from the spec: \<open>parseDuration\<close> of \<open>core/duration\<close> is not among the
  sources. The spec: a sequence of tokens, an integer followed by a unit, separated by
  optional white space; each token contributes integer times the unit's factor in
  milliseconds; the contributions are summed; a malformed token contributes 0. The
  scanner keeps the total, the number being read and the unit being read.
\<close>

definition unit_factor :: "string \<rightharpoonup> int" where
  "unit_factor = map_of
     [(''ms'', 1), (''s'', 1000), (''m'', 60000), (''h'', 3600000), (''d'', 86400000)]"

definition digit_value :: "char \<Rightarrow> nat" where
  "digit_value c =
     (case map_of (zip ''0123456789'' [0, 1, 2, 3, 4, 5, 6, 7, 8, 9]) c of
        Some d \<Rightarrow> d | None \<Rightarrow> 0)"

definition contribution :: "nat option \<Rightarrow> string \<Rightarrow> int" where
  "contribution num u =
     (case num of
        None \<Rightarrow> 0
      | Some n \<Rightarrow> (case unit_factor u of None \<Rightarrow> 0 | Some f \<Rightarrow> int n * f))"

fun scan :: "string \<Rightarrow> int \<Rightarrow> nat option \<Rightarrow> string \<Rightarrow> int" where
  "scan [] acc num u = acc + contribution num u"
| "scan (c # cs) acc num u =
     (if is_digit c then
        (if u = []
         then scan cs acc (Some (10 * (case num of None \<Rightarrow> 0 | Some n \<Rightarrow> n) + digit_value c)) []
         else scan cs (acc + contribution num u) (Some (digit_value c)) [])
      else if is_letter c then scan cs acc num (u @ [c])
      else scan cs (acc + contribution num u) None [])"

definition parseDuration :: "string \<Rightarrow> int" where
  "parseDuration s = scan s 0 None []"

subsection \<open>The handlers\<close>

text \<open>
  The lookup \<open>x in aliases.get() ? aliases.get()[x] : x\<close>, written out at each of its
  three places in the source (in \<open>$play\<close> on the lowercased first word, in the two
  cooldown handlers on the argument as it is).
\<close>

definition resolve :: "Aliases \<Rightarrow> string \<Rightarrow> string" where
  "resolve al x = (if x \<in> dom al then the (al x) else x)"

text \<open>\<open>$play\<close>: \<open>split(" ")[0]\<close> is the text before the first space.\<close>

definition play_handle :: "User \<Rightarrow> string \<Rightarrow> state \<Rightarrow> state" where
  "play_handle user sound st =
     (if truthy (playing (player st)) then st
      else
        let sound1 = takeWhile (\<lambda>c. c \<noteq> CHR '' '') (toLowerCase sound);
            sound2 = resolve (aliases st) sound1
        in if sound2 \<in> sounds (player st)
           then (log (name user @ '' played '' @ sound2) st)
                  \<lparr>player := Player_play sound2 (name user) (player st)\<rparr>
           else st)"


text \<open>
  \<open>$role\<close>: the update is inside \<open>if (role in Role)\<close>; the \<open>console.log\<close> comes after
  that \<open>if\<close>, for every role string that passed the numeric test.
\<close>

definition role_handle :: "User \<Rightarrow> string \<Rightarrow> string \<Rightarrow> state \<Rightarrow> state" where
  "role_handle user name' role' st =
     (if \<not> isNaN_Number role' then st
      else
        let role2 = capitalize (toLowerCase role');
            st1 = (if has_key role2 Role_obj
                   then st\<lparr>users := (users st)(name' \<mapsto>
                           \<lparr>name = name', role = Role_member role2\<rparr>)\<rparr>
                   else st)
        in log (name user @ '' set role of '' @ name' @ '' to '' @ role2) st1)"

definition show_bool :: "bool \<Rightarrow> string" where
  "show_bool b = (if b then ''true'' else ''false'')"

text \<open>
  The reads of \<open>$prefs\<close> under a key that passed \<open>key in prefs.get()\<close>: \<open>!v[key]\<close>
  negates the stored boolean, and an inherited member (a function or an object) is
  truthy; the template string prints the boolean or the inherited member.
\<close>

definition prefs_truthy :: "Preferences \<Rightarrow> string \<Rightarrow> bool" where
  "prefs_truthy v k = (case v k of Some b \<Rightarrow> b | None \<Rightarrow> True)"

definition prefs_text :: "Preferences \<Rightarrow> string \<Rightarrow> string" where
  "prefs_text v k = (case v k of Some b \<Rightarrow> show_bool b | None \<Rightarrow> inherited_text k)"

text \<open>
  \<open>$prefs\<close>: the \<open>switch\<close> has no default case; the \<open>console.log\<close> comes after it,
  inside \<open>if (key in prefs.get())\<close>.
\<close>

definition prefs_handle :: "User \<Rightarrow> string \<Rightarrow> string \<Rightarrow> state \<Rightarrow> state" where
  "prefs_handle user key val st =
     (if has_key key (prefs st) then
        let st1 =
              (if val = ''toggle''
               then st\<lparr>prefs := (prefs st)(key \<mapsto> \<not> prefs_truthy (prefs st) key)\<rparr>
               else if val = ''on'' \<or> val = ''true'' \<or> val = ''yes''
               then st\<lparr>prefs := (prefs st)(key \<mapsto> True)\<rparr>
               else if val = ''off'' \<or> val = ''false'' \<or> val = ''no''
               then st\<lparr>prefs := (prefs st)(key \<mapsto> False)\<rparr>
               else st)
        in log (''Updated preference '' @ key @ '' to '' @ prefs_text (prefs st1) key) st1
      else st)"

definition alias_set_handle :: "User \<Rightarrow> string \<Rightarrow> string \<Rightarrow> state \<Rightarrow> state" where
  "alias_set_handle user name' as' st =
     (let name1 = toLowerCase name';
          as1 = toLowerCase as'
      in if as1 \<notin> sounds (player st) then st
         else
           let exists = has_key name1 (aliases st)
           in log (name user @ '' '' @ (if exists then ''updated'' else ''added'') @
                   '' an alias: '' @ name1 @ '' -> '' @ as1)
                (st\<lparr>aliases := (aliases st)(name1 \<mapsto> as1)\<rparr>))"

definition alias_rm_handle :: "User \<Rightarrow> string \<Rightarrow> state \<Rightarrow> state" where
  "alias_rm_handle user name' st =
     (let name1 = toLowerCase name'
      in log (name user @ '' removed an alias: '' @ name1)
           (st\<lparr>aliases := (aliases st)(name1 := None)\<rparr>))"

definition prefix_handle :: "User \<Rightarrow> string \<Rightarrow> state \<Rightarrow> state" where
  "prefix_handle user val st =
     log (name user @ '' updated prefix to '' @ val) (st\<lparr>prefix := val\<rparr>)"

definition say_handle :: "User \<Rightarrow> string \<Rightarrow> state \<Rightarrow> state" where
  "say_handle user txt st =
     log (name user @ '' said '' @ txt @ '' through TTS'') (st\<lparr>tts := tts st @ [txt]\<rparr>)"

subsection \<open>The cooldown preset\<close>

text \<open>
  \<open>_cooldownPreset(which)\<close> builds the \<open>set\<close> and \<open>rm\<close> handlers for one of the two
  fields. \<open>field\<close> and \<open>primary\<close> name the selected field, \<open>secondary\<close> the other one.
\<close>

datatype which = Which_user | Which_sound

datatype field_name = PerUser | PerSound

definition field :: "which \<Rightarrow> field_name" where
  "field w = (if w = Which_user then PerUser else PerSound)"

definition primary :: "which \<Rightarrow> field_name" where
  "primary w = field w"

definition secondary :: "which \<Rightarrow> field_name" where
  "secondary w = (if w = Which_user then PerSound else PerUser)"

text \<open>The assignment \<open>record[k] = x\<close> for a field name \<open>k\<close>.\<close>

fun assign :: "field_name \<Rightarrow> int \<Rightarrow> Cooldown \<Rightarrow> Cooldown" where
  "assign PerUser x r = r\<lparr>perUser := x\<rparr>"
| "assign PerSound x r = r\<lparr>perSound := x\<rparr>"

text \<open>
  The object literal \<open>{[k1]: x1, [k2]: x2}\<close>: the properties are assigned in order. The
  two keys of the source are \<open>primary\<close> and \<open>secondary\<close>, which differ, so both fields
  of the result come from the literal and the starting values never show.
\<close>

definition literal :: "field_name \<Rightarrow> int \<Rightarrow> field_name \<Rightarrow> int \<Rightarrow> Cooldown" where
  "literal k1 x1 k2 x2 = assign k2 x2 (assign k1 x1 \<lparr>perUser = 0, perSound = 0\<rparr>)"

text \<open>
  \<open>set\<close>: the value written under \<open>secondary\<close> is \<open>v[name]?.perSound ?? 0\<close>, for both
  values of \<open>which\<close>.
\<close>

definition cooldown_set_handle :: "which \<Rightarrow> User \<Rightarrow> string \<Rightarrow> string \<Rightarrow> state \<Rightarrow> state" where
  "cooldown_set_handle w user name' val st =
     (let millis = parseDuration val;
          name1 = resolve (aliases st) name'
      in if name1 \<notin> sounds (player st) then st
         else
           log (name user @ '' set cooldown of '' @ name1 @ '' to '' @ val)
             (st\<lparr>cooldowns := (cooldowns st)(name1 \<mapsto>
                    literal (primary w) millis (secondary w)
                      (case cooldowns st name1 of None \<Rightarrow> 0 | Some r \<Rightarrow> perSound r))\<rparr>))"

text \<open>
  \<open>rm\<close>: the table is copied, the record's selected field is set to 0, and the key is
  deleted when both fields are then 0. (The copy is shallow, so the assignment also
  reaches the record of the table that is replaced; the handler's result is the new
  table.)
\<close>

definition cooldown_rm_handle :: "which \<Rightarrow> User \<Rightarrow> string \<Rightarrow> state \<Rightarrow> state" where
  "cooldown_rm_handle w user name' st =
     (let name1 = resolve (aliases st) name'
      in if name1 \<notin> sounds (player st) then st
         else
           (case cooldowns st name1 of
              None \<Rightarrow> st
            | Some r \<Rightarrow>
                let r1 = assign (field w) 0 r;
                    cooldowns1 = (cooldowns st)(name1 \<mapsto> r1);
                    cooldowns2 = (if perSound r1 = 0 \<and> perUser r1 = 0
                                  then cooldowns1(name1 := None) else cooldowns1)
                in log (name user @ '' removed cooldown of '' @ name1)
                     (st\<lparr>cooldowns := cooldowns2\<rparr>)))"

subsection \<open>The initial state and the cooldown invariant\<close>

text \<open>
  The initial value of every store, as the \<open>Store\<close> constructors give it: the channel's
  owner is the only user, with role Streamer, when there is a channel.
\<close>

definition initial :: "string option \<Rightarrow> string set \<Rightarrow> state" where
  "initial ch snds =
     \<lparr>prefix = ''!xd'',
      users = (case ch of
                 None \<Rightarrow> Map.empty
               | Some c \<Rightarrow> if c \<noteq> [] then [c \<mapsto> \<lparr>name = c, role = Ordinal Role_Streamer\<rparr>]
                          else Map.empty),
      prefs = defaultPrefs,
      aliases = Map.empty,
      cooldowns = Map.empty,
      player = \<lparr>sounds = snds, playing = None, invoked = []\<rparr>,
      console = [],
      tts = []\<rparr>"

text \<open>
  The invariant the spec states for the cooldown table: a sound has a record only if one
  of the record's two fields is not zero.
\<close>

definition cooldowns_inv :: "Cooldowns \<Rightarrow> bool" where
  "cooldowns_inv t = (\<forall>n r. t n = Some r \<longrightarrow> perUser r \<noteq> 0 \<or> perSound r \<noteq> 0)"

subsection \<open>The role lookup of the spec\<close>

text \<open>
  The spec's \<open>roleByName\<close>, after its words: numeric-looking input is rejected; the
  name, with its first letter capitalized and the rest lowercased, is matched against the
  known roles None, User, Editor and Streamer.
\<close>

definition normalized :: "string \<Rightarrow> string" where
  "normalized s = (case s of [] \<Rightarrow> [] | c # cs \<Rightarrow> toUpperCase_char c # toLowerCase cs)"

definition roleByName :: "string \<Rightarrow> Role option" where
  "roleByName s =
     (if \<not> isNaN_Number s then None
      else map_of [(''None'', Role_None), (''User'', Role_User),
                   (''Editor'', Role_Editor), (''Streamer'', Role_Streamer)] (normalized s))"

subsection \<open>Runs of play requests\<close>




subsection \<open>Concrete states\<close>

text \<open>The streamer, who may invoke every command.\<close>

definition alice :: User where
  "alice = \<lparr>name = ''alice'', role = Ordinal Role_Streamer\<rparr>"

text \<open>A fresh state of \<open>alice\<close>'s channel with two sounds.\<close>

definition st0 :: state where
  "st0 = initial (channel ''#alice'') {''foo'', ''boom''}"

text \<open>The same with one alias and a cooldown record for each sound.\<close>

definition st1 :: state where
  "st1 = st0\<lparr>aliases := [''bm'' \<mapsto> ''boom''],
            cooldowns := [''boom'' \<mapsto> \<lparr>perUser = 5000, perSound = 3000\<rparr>,
                          ''foo'' \<mapsto> \<lparr>perUser = 0, perSound = 3000\<rparr>]\<rparr>"



section \<open>Properties\<close>

lemmas string_defs = toLowerCase_def toLowerCase_char_def toUpperCase_char_def
  upper_letters_def lower_letters_def capitalize_def is_digit_def is_letter_def

lemmas numeric_defs = isNaN_Number_def trim_def is_white_def NonDecimalIntegerLiteral_def
  StrDecimalLiteral_def StrUnsignedDecimalLiteral_def ExponentPart_opt_def

lemmas scan_defs = parseDuration_def digit_value_def contribution_def unit_factor_def
  is_digit_def is_letter_def upper_letters_def lower_letters_def

lemmas preset_defs = field_def primary_def secondary_def literal_def

lemma st0_simps:
  "sounds (player st0) = {''foo'', ''boom''}" "aliases st0 = Map.empty"
  "cooldowns st0 = Map.empty" "console st0 = []" "prefs st0 = defaultPrefs"
  "playing (player st0) = None" "invoked (player st0) = []"
  "users st0 = [''alice'' \<mapsto> alice]"
  by (simp_all add: st0_def initial_def channel_def alice_def)

lemma st1_simps:
  "sounds (player st1) = {''foo'', ''boom''}" "aliases st1 = [''bm'' \<mapsto> ''boom'']"
  "cooldowns st1 = [''boom'' \<mapsto> \<lparr>perUser = 5000, perSound = 3000\<rparr>,
                    ''foo'' \<mapsto> \<lparr>perUser = 0, perSound = 3000\<rparr>]"
  "console st1 = []" "prefs st1 = defaultPrefs" "playing (player st1) = None"
  by (simp_all add: st1_def st0_def initial_def channel_def)

subsection \<open>The cooldown handlers, case by case\<close>

lemma primary_secondary: "primary w \<noteq> secondary w"
  by (cases w) (simp_all add: preset_defs)

lemma cooldowns_set_known:
  assumes "resolve (aliases st) n \<in> sounds (player st)"
  shows "cooldowns (cooldown_set_handle w u n v st) =
           (cooldowns st)(resolve (aliases st) n \<mapsto>
              literal (primary w) (parseDuration v) (secondary w)
                (case cooldowns st (resolve (aliases st) n) of None \<Rightarrow> 0 | Some r \<Rightarrow> perSound r))"
  using assms by (simp add: cooldown_set_handle_def log_def Let_def)

lemma cooldown_set_unknown:
  assumes "resolve (aliases st) n \<notin> sounds (player st)"
  shows "cooldown_set_handle w u n v st = st"
  using assms by (simp add: cooldown_set_handle_def Let_def)

lemma cooldown_rm_unknown:
  assumes "resolve (aliases st) n \<notin> sounds (player st)"
  shows "cooldown_rm_handle w u n st = st"
  using assms by (simp add: cooldown_rm_handle_def Let_def)

lemma cooldown_rm_no_record:
  assumes "cooldowns st (resolve (aliases st) n) = None"
  shows "cooldown_rm_handle w u n st = st"
  using assms by (simp add: cooldown_rm_handle_def Let_def)

lemma cooldowns_rm_known:
  assumes "resolve (aliases st) n \<in> sounds (player st)"
    and "cooldowns st (resolve (aliases st) n) = Some r"
  shows "cooldowns (cooldown_rm_handle w u n st) =
           (if perSound (assign (field w) 0 r) = 0 \<and> perUser (assign (field w) 0 r) = 0
            then (cooldowns st)(resolve (aliases st) n := None)
            else (cooldowns st)(resolve (aliases st) n \<mapsto> assign (field w) 0 r))"
  using assms by (simp add: cooldown_rm_handle_def log_def Let_def)

text \<open>
  With the user selector, \<open>set\<close> keeps the other field: the literal's second value is the
  record's \<open>perSound\<close>, which is the other field.
\<close>

lemma cooldown_set_user_keeps_perSound:
  assumes "resolve (aliases st) n \<in> sounds (player st)"
  shows "cooldowns (cooldown_set_handle Which_user u n v st) (resolve (aliases st) n) =
           Some \<lparr>perUser = parseDuration v,
                 perSound = (case cooldowns st (resolve (aliases st) n) of
                               None \<Rightarrow> 0 | Some r \<Rightarrow> perSound r)\<rparr>"
  by (simp add: cooldowns_set_known [OF assms] preset_defs)

text \<open>
  With the sound selector, the literal's second value is again the record's
  \<open>perSound\<close>, and it is written to \<open>perUser\<close>.
\<close>

lemma cooldown_set_sound_overwrites_perUser:
  assumes "resolve (aliases st) n \<in> sounds (player st)"
  shows "cooldowns (cooldown_set_handle Which_sound u n v st) (resolve (aliases st) n) =
           Some \<lparr>perUser = (case cooldowns st (resolve (aliases st) n) of
                              None \<Rightarrow> 0 | Some r \<Rightarrow> perSound r),
                 perSound = parseDuration v\<rparr>"
  by (simp add: cooldowns_set_known [OF assms] preset_defs)

subsection \<open>Claims\<close>

text \<open>
  C1. The claim: \<open>set\<close>, for either selector, leaves the other field as it was (0 without
  a prior record); on an empty table, setting \<open>perUser\<close> to 5000 and then \<open>perSound\<close>
  to 3000 for the same sound gives \<open>{perUser: 5000, perSound: 3000}\<close>. The code at that
  input: the second call writes the old \<open>perSound\<close>, which is 0, to \<open>perUser\<close>, and the
  5000 is lost; a third call with the sound selector moves the 3000 to \<open>perUser\<close>.
\<close>

theorem cooldown_set_sound_loses_perUser:
  "cooldowns (cooldown_set_handle Which_user alice ''foo'' ''5s'' st0) ''foo''
     = Some \<lparr>perUser = 5000, perSound = 0\<rparr> \<and>
   cooldowns (cooldown_set_handle Which_sound alice ''foo'' ''3s''
               (cooldown_set_handle Which_user alice ''foo'' ''5s'' st0)) ''foo''
     = Some \<lparr>perUser = 0, perSound = 3000\<rparr> \<and>
   cooldowns (cooldown_set_handle Which_sound alice ''foo'' ''1s''
               (cooldown_set_handle Which_sound alice ''foo'' ''3s''
                 (cooldown_set_handle Which_user alice ''foo'' ''5s'' st0))) ''foo''
     = Some \<lparr>perUser = 3000, perSound = 1000\<rparr>"
  by (simp add: cooldown_set_handle_def resolve_def log_def Let_def st0_simps
      preset_defs scan_defs)

text \<open>
  C2. The claim: every cooldown operation keeps the invariant that a sound has a record
  only if one of its fields is not zero. \<open>set\<close> never deletes a record: with a duration
  of 0 on a sound without a record it stores a record with both fields 0.
\<close>

theorem cooldown_set_zero_counterexample:
  "cooldowns_inv (cooldowns st0) \<and>
   \<not> cooldowns_inv (cooldowns (cooldown_set_handle Which_user alice ''foo'' ''0s'' st0))"
proof -
  have a: "cooldowns_inv (cooldowns st0)"
    by (simp add: cooldowns_inv_def st0_simps)
  have "cooldowns (cooldown_set_handle Which_user alice ''foo'' ''0s'' st0) ''foo''
          = Some \<lparr>perUser = 0, perSound = 0\<rparr>"
    by (simp add: cooldown_set_handle_def resolve_def log_def Let_def st0_simps
        preset_defs scan_defs)
  then have "\<not> cooldowns_inv (cooldowns (cooldown_set_handle Which_user alice ''foo'' ''0s'' st0))"
    unfolding cooldowns_inv_def by fastforce
  with a show ?thesis by simp
qed

text \<open>
  C2, as amended: \<open>rm\<close> keeps the invariant, for both selectors. \<open>set\<close> keeps it
  whenever the parsed duration is not zero, with the user selector also whenever the
  sound's record has a \<open>perSound\<close> that is not zero, and whenever the name does not
  resolve to a known sound. \<open>set\<close> never removes a key.
\<close>

theorem cooldowns_inv_preserved:
  "(cooldowns_inv (cooldowns st) \<longrightarrow>
      cooldowns_inv (cooldowns (cooldown_rm_handle w u n st)) \<and>
      (parseDuration v \<noteq> 0 \<longrightarrow>
         cooldowns_inv (cooldowns (cooldown_set_handle w u n v st))) \<and>
      ((\<exists>r. cooldowns st (resolve (aliases st) n) = Some r \<and> perSound r \<noteq> 0) \<longrightarrow>
         cooldowns_inv (cooldowns (cooldown_set_handle Which_user u n v st))) \<and>
      (resolve (aliases st) n \<notin> sounds (player st) \<longrightarrow>
         cooldowns_inv (cooldowns (cooldown_set_handle w u n v st)))) \<and>
   dom (cooldowns st) \<subseteq> dom (cooldowns (cooldown_set_handle w u n v st))"
proof (intro conjI impI)
  assume inv: "cooldowns_inv (cooldowns st)"
  show "cooldowns_inv (cooldowns (cooldown_rm_handle w u n st))"
  proof (cases "resolve (aliases st) n \<in> sounds (player st)")
    case False
    then show ?thesis using inv by (simp add: cooldown_rm_unknown)
  next
    case True
    show ?thesis
    proof (cases "cooldowns st (resolve (aliases st) n)")
      case None
      then show ?thesis using inv by (simp add: cooldown_rm_no_record)
    next
      case (Some r)
      show ?thesis
        using inv unfolding cooldowns_rm_known [OF True Some] cooldowns_inv_def
        by (auto split: if_splits)
    qed
  qed
next
  assume inv: "cooldowns_inv (cooldowns st)" and nz: "parseDuration v \<noteq> 0"
  show "cooldowns_inv (cooldowns (cooldown_set_handle w u n v st))"
  proof (cases "resolve (aliases st) n \<in> sounds (player st)")
    case False
    then show ?thesis using inv by (simp add: cooldown_set_unknown)
  next
    case True
    show ?thesis
      using inv nz unfolding cooldowns_set_known [OF True] cooldowns_inv_def
      by (cases w) (auto simp: preset_defs split: if_splits)
  qed
next
  assume inv: "cooldowns_inv (cooldowns st)"
    and ex: "\<exists>r. cooldowns st (resolve (aliases st) n) = Some r \<and> perSound r \<noteq> 0"
  show "cooldowns_inv (cooldowns (cooldown_set_handle Which_user u n v st))"
  proof (cases "resolve (aliases st) n \<in> sounds (player st)")
    case False
    then show ?thesis using inv by (simp add: cooldown_set_unknown)
  next
    case True
    show ?thesis
      using inv ex unfolding cooldowns_set_known [OF True] cooldowns_inv_def
      by (auto simp: preset_defs split: if_splits)
  qed
next
  assume inv: "cooldowns_inv (cooldowns st)"
    and "resolve (aliases st) n \<notin> sounds (player st)"
  then show "cooldowns_inv (cooldowns (cooldown_set_handle w u n v st))"
    by (simp add: cooldown_set_unknown)
next
  show "dom (cooldowns st) \<subseteq> dom (cooldowns (cooldown_set_handle w u n v st))"
  proof (cases "resolve (aliases st) n \<in> sounds (player st)")
    case False
    then show ?thesis by (simp add: cooldown_set_unknown)
  next
    case True
    show ?thesis unfolding cooldowns_set_known [OF True] by auto
  qed
qed

theorem cooldowns_inv_preserved_witness:
  "cooldowns_inv (cooldowns st1) \<and> parseDuration ''1m'' \<noteq> 0 \<and>
   cooldowns st1 (resolve (aliases st1) ''foo'') = Some \<lparr>perUser = 0, perSound = 3000\<rparr> \<and>
   cooldowns_inv (cooldowns (cooldown_rm_handle Which_sound alice ''foo'' st1)) \<and>
   cooldowns_inv (cooldowns (cooldown_set_handle Which_sound alice ''foo'' ''1m'' st1)) \<and>
   cooldowns_inv (cooldowns (cooldown_set_handle Which_user alice ''foo'' ''0s'' st1)) \<and>
   resolve (aliases st1) ''nope'' \<notin> sounds (player st1) \<and>
   cooldowns_inv (cooldowns (cooldown_set_handle Which_sound alice ''nope'' ''0s'' st1)) \<and>
   dom (cooldowns st1) \<subseteq> dom (cooldowns (cooldown_set_handle Which_user alice ''foo'' ''0s'' st1))"
proof -
  have a: "cooldowns_inv (cooldowns st1)"
    by (simp add: cooldowns_inv_def st1_simps)
  have b: "parseDuration ''1m'' \<noteq> 0"
    by (simp add: scan_defs)
  have c: "cooldowns st1 (resolve (aliases st1) ''foo'') = Some \<lparr>perUser = 0, perSound = 3000\<rparr>"
    by (simp add: resolve_def st1_simps)
  have d: "resolve (aliases st1) ''nope'' \<notin> sounds (player st1)"
    by (simp add: resolve_def st1_simps)
  show ?thesis
    using a b c d
      cooldowns_inv_preserved [of st1 Which_sound alice "''foo''" "''1m''"]
      cooldowns_inv_preserved [of st1 Which_user alice "''foo''" "''0s''"]
      cooldowns_inv_preserved [of st1 Which_sound alice "''nope''" "''0s''"]
    by simp
qed



text \<open>
  C6. \<open>set\<close> and \<open>rm\<close> leave the table as it is when the name, after the handlers' alias
  lookup, is not a known sound; \<open>rm\<close> also when the resolved sound has no record.
\<close>

theorem cooldown_unknown_sound_noop:
  "(resolve (aliases st) n \<notin> sounds (player st) \<longrightarrow>
      cooldowns (cooldown_set_handle w u n v st) = cooldowns st \<and>
      cooldowns (cooldown_rm_handle w u n st) = cooldowns st) \<and>
   (cooldowns st (resolve (aliases st) n) = None \<longrightarrow>
      cooldowns (cooldown_rm_handle w u n st) = cooldowns st)"
  by (simp add: cooldown_set_unknown cooldown_rm_unknown cooldown_rm_no_record)

theorem cooldown_unknown_sound_noop_witness:
  "resolve (aliases st1) ''nope'' \<notin> sounds (player st1) \<and>
   cooldowns (cooldown_set_handle Which_user alice ''nope'' ''1m'' st1) = cooldowns st1 \<and>
   cooldowns (cooldown_rm_handle Which_user alice ''nope'' st1) = cooldowns st1 \<and>
   cooldowns st0 (resolve (aliases st0) ''boom'') = None \<and>
   cooldowns (cooldown_rm_handle Which_sound alice ''boom'' st0) = cooldowns st0"
proof -
  have a: "resolve (aliases st1) ''nope'' \<notin> sounds (player st1)"
    by (simp add: resolve_def st1_simps)
  have b: "cooldowns st0 (resolve (aliases st0) ''boom'') = None"
    by (simp add: resolve_def st0_simps)
  show ?thesis
    using a b cooldown_unknown_sound_noop [of st1 "''nope''" Which_user alice "''1m''"]
      cooldown_unknown_sound_noop [of st0 "''boom''" Which_sound alice "''1m''"]
    by simp
qed

subsection \<open>The role handler against the spec's lookup\<close>

lemma upper_of_lower: "toUpperCase_char (toLowerCase_char c) = toUpperCase_char c"
  by (simp add: toLowerCase_char_def toUpperCase_char_def upper_letters_def lower_letters_def)

lemma capitalize_toLowerCase: "capitalize (toLowerCase s) = normalized s"
  by (cases s) (simp_all add: capitalize_def normalized_def toLowerCase_def upper_of_lower)

lemma upper_digit:
  assumes "toUpperCase_char c = d" and "d \<in> set ''0123''"
  shows "c = d"
  using assms
  by (auto simp: toUpperCase_char_def upper_letters_def lower_letters_def split: if_splits)

lemma numeric_digit: "d \<in> set ''0123'' \<Longrightarrow> \<not> isNaN_Number [d]"
  by (auto simp: numeric_defs is_digit_def)

lemma normalized_not_numeric_key:
  assumes "isNaN_Number s"
  shows "normalized s \<notin> {''0'', ''1'', ''2'', ''3''}"
proof
  assume k: "normalized s \<in> {''0'', ''1'', ''2'', ''3''}"
  then obtain c where s: "s = [c]"
    by (cases s) (auto simp: normalized_def toLowerCase_def)
  from k s have "toUpperCase_char c \<in> set ''0123''"
    by (auto simp: normalized_def toLowerCase_def)
  then have "c \<in> set ''0123''"
    using upper_digit [of c "toUpperCase_char c"] by simp
  then have "\<not> isNaN_Number [c]" by (rule numeric_digit)
  with assms s show False by simp
qed

text \<open>
  Of the inherited keys only \<open>__proto__\<close> is the normal form of a role string: every
  other one starts with a lowercase letter or has an uppercase letter after the first.
\<close>

lemma upper_not_lower: "toUpperCase_char c \<notin> set lower_letters"
  by (simp add: toUpperCase_char_def upper_letters_def lower_letters_def)

lemma lower_not_upper: "toLowerCase_char c \<notin> set upper_letters"
  by (simp add: toLowerCase_char_def upper_letters_def lower_letters_def)

lemma upper_not_lower_letter:
  "l \<in> set lower_letters \<Longrightarrow> toUpperCase_char c \<noteq> l"
  using upper_not_lower [of c] by auto

lemma lower_not_upper_letter:
  "l \<in> set upper_letters \<Longrightarrow> l \<notin> set (toLowerCase cs)"
  using lower_not_upper by (auto simp: toLowerCase_def)

lemma normalized_inherited:
  assumes "normalized r \<in> set Object_prototype_keys"
  shows "normalized r = ''__proto__''"
proof (cases r)
  case Nil
  then show ?thesis using assms by (simp add: normalized_def Object_prototype_keys_def)
next
  case (Cons c cs)
  have h: "toUpperCase_char c \<noteq> CHR ''c''" "toUpperCase_char c \<noteq> CHR ''h''"
    "toUpperCase_char c \<noteq> CHR ''i''" "toUpperCase_char c \<noteq> CHR ''p''"
    "toUpperCase_char c \<noteq> CHR ''t''" "toUpperCase_char c \<noteq> CHR ''v''"
    by (rule upper_not_lower_letter, simp add: lower_letters_def)+
  have g: "CHR ''G'' \<notin> set (toLowerCase cs)"
    by (rule lower_not_upper_letter) (simp add: upper_letters_def)
  have s: "CHR ''S'' \<notin> set (toLowerCase cs)"
    by (rule lower_not_upper_letter) (simp add: upper_letters_def)
  from assms Cons have "toUpperCase_char c # toLowerCase cs \<in> set Object_prototype_keys"
    by (simp add: normalized_def)
  then have "toUpperCase_char c # toLowerCase cs = ''__proto__''"
    using h g s by (auto simp: Object_prototype_keys_def)
  then show ?thesis using Cons by (simp add: normalized_def)
qed

lemma proto_inherited: "''__proto__'' \<in> set Object_prototype_keys"
  by (simp add: Object_prototype_keys_def)

lemma Role_obj_cases:
  "Role_obj k = Some v \<Longrightarrow>
     (k = ''None'' \<and> v = Ordinal Role_None) \<or> (k = ''User'' \<and> v = Ordinal Role_User) \<or>
     (k = ''Editor'' \<and> v = Ordinal Role_Editor) \<or>
     (k = ''Streamer'' \<and> v = Ordinal Role_Streamer) \<or>
     k \<in> {''0'', ''1'', ''2'', ''3''}"
  by (auto simp: Role_obj_def split: if_splits)

text \<open>
  The users after the role handler, for every role string: the spec's lookup decides,
  except that a string whose normal form is \<open>__proto__\<close> passes \<open>role in Role\<close> and
  stores the inherited member as the role.
\<close>

lemma role_handle_numeric: "\<not> isNaN_Number r \<Longrightarrow> role_handle u n r st = st"
  by (simp add: role_handle_def)

lemma role_handle_users:
  "users (role_handle u n r st) =
     (case roleByName r of
        Some R \<Rightarrow> (users st)(n \<mapsto> \<lparr>name = n, role = Ordinal R\<rparr>)
      | None \<Rightarrow>
          if isNaN_Number r \<and> normalized r = ''__proto__''
          then (users st)(n \<mapsto> \<lparr>name = n, role = Inherited ''__proto__''\<rparr>)
          else users st)"
proof (cases "isNaN_Number r")
  case False
  then show ?thesis by (simp add: role_handle_def roleByName_def)
next
  case True
  have nk: "normalized r \<notin> {''0'', ''1'', ''2'', ''3''}"
    using True by (rule normalized_not_numeric_key)
  show ?thesis
  proof (cases "Role_obj (normalized r)")
    case None
    then have own: "normalized r \<notin> dom Role_obj" by auto
    from None have rb: "roleByName r = None"
      using True by (auto simp: roleByName_def Role_obj_def split: if_splits)
    have hk: "has_key (normalized r) Role_obj \<longleftrightarrow> normalized r = ''__proto__''"
      using own normalized_inherited [of r] proto_inherited by (auto simp: has_key_def)
    have rm: "Role_member (normalized r) = Inherited (normalized r)"
      using None by (simp add: Role_member_def)
    show ?thesis
      using True rb hk rm
      by (auto simp: role_handle_def Let_def capitalize_toLowerCase log_def)
  next
    case (Some v)
    then have d: "has_key (normalized r) Role_obj" by (auto simp: has_key_def)
    have rm: "Role_member (normalized r) = v"
      using Some by (simp add: Role_member_def)
    from Role_obj_cases [OF Some] nk
    have "\<exists>R. v = Ordinal R \<and> roleByName r = Some R"
      using True by (auto simp: roleByName_def)
    then show ?thesis
      using True d rm by (auto simp: role_handle_def Let_def capitalize_toLowerCase log_def)
  qed
qed

lemma role_handle_other_stores:
  "prefix (role_handle u n r st) = prefix st \<and> prefs (role_handle u n r st) = prefs st \<and>
   aliases (role_handle u n r st) = aliases st \<and> cooldowns (role_handle u n r st) = cooldowns st"
  by (simp add: role_handle_def Let_def log_def)

lemma roles_names: "roles = [''None'', ''User'', ''Editor'', ''Streamer'']"
  by (simp add: roles_def Role_keys_def numeric_defs is_digit_def)

subsection \<open>The busy flag\<close>







subsection \<open>The alias lookup\<close>

text \<open>A name that is not an alias resolves to itself; the lookup is one hop.\<close>

lemma resolve_not_alias: "x \<notin> dom al \<Longrightarrow> resolve al x = x"
  by (simp add: resolve_def)

lemma resolve_alias: "al x = Some y \<Longrightarrow> resolve al x = y"
  by (auto simp: resolve_def)

subsection \<open>Rejected arguments\<close>

text \<open>
  Where the guards do reject: an unknown preference key that is not inherited, a value
  that is none of the keywords, a role string that the spec's lookup rejects and that is
  not \<open>__proto__\<close> in any case. \<open>play\<close> writes to no store at all.
\<close>

lemma prefs_handle_unknown_key:
  "\<not> has_key key (prefs st) \<Longrightarrow> prefs_handle u key pv st = st"
  by (simp add: prefs_handle_def)

lemma prefs_handle_unrecognized_value:
  "pv \<notin> {''toggle'', ''on'', ''true'', ''yes'', ''off'', ''false'', ''no''} \<Longrightarrow>
   stores (prefs_handle u key pv st) = stores st"
  by (simp add: prefs_handle_def Let_def log_def stores_def)

lemma role_handle_rejected:
  assumes "roleByName r = None" and "toLowerCase r \<noteq> ''__proto__''"
  shows "stores (role_handle u target r st) = stores st"
proof -
  have "normalized r \<noteq> ''__proto__''"
  proof
    assume e: "normalized r = ''__proto__''"
    then obtain c cs where r: "r = c # cs" by (cases r) (auto simp: normalized_def)
    from e r have t: "toLowerCase cs = ''_proto__''" and h: "toUpperCase_char c = CHR ''_''"
      by (simp_all add: normalized_def)
    from h have "c = CHR ''_''"
      by (auto simp: toUpperCase_char_def upper_letters_def lower_letters_def split: if_splits)
    then have "toLowerCase r = ''__proto__''"
      using r t by (simp add: toLowerCase_def toLowerCase_char_def upper_letters_def lower_letters_def)
    with assms show False by simp
  qed
  then show ?thesis
    using assms by (simp add: stores_def role_handle_users role_handle_other_stores)
qed

lemma play_handle_stores: "stores (play_handle u sound st) = stores st"
  by (simp add: play_handle_def Let_def log_def stores_def)

subsection \<open>Store keys with a channel\<close>

lemma Stores_keys_distinct:
  "c \<noteq> [] \<Longrightarrow> distinct (Stores_keys (Some c))"
  by (simp add: Stores_keys_def storeKey_def)

subsection \<open>Claims on logging, rejection, roles, aliases, playback and store keys\<close>

text \<open>
  C3. The claim: a handler invocation that fails writes no log line. The code at two
  rejected invocations: \<open>role bob wizard\<close> (no such role) leaves the users as they are
  and logs that the role was set; \<open>prefs autoplay maybe\<close> (no such value keyword) leaves
  the preferences as they are and logs that the preference was updated.
\<close>

theorem failed_commands_still_log:
  "users (role_handle alice ''bob'' ''wizard'' st0) = users st0 \<and>
   console (role_handle alice ''bob'' ''wizard'' st0) = [''alice set role of bob to Wizard''] \<and>
   prefs (prefs_handle alice ''autoplay'' ''maybe'' st0) = prefs st0 \<and>
   console (prefs_handle alice ''autoplay'' ''maybe'' st0)
     = [''Updated preference autoplay to false'']"
proof -
  have n: "isNaN_Number ''wizard''"
    by (simp add: numeric_defs is_digit_def)
  have c: "capitalize (toLowerCase ''wizard'') = ''Wizard''"
    by (simp add: string_defs)
  have k: "\<not> has_key ''Wizard'' Role_obj"
    by (simp add: has_key_def Role_obj_def Object_prototype_keys_def)
  have r: "role_handle alice ''bob'' ''wizard'' st0 = log ''alice set role of bob to Wizard'' st0"
    by (simp add: role_handle_def n c k Let_def alice_def)
  have p: "prefs_handle alice ''autoplay'' ''maybe'' st0
             = log ''Updated preference autoplay to false'' st0"
    by (simp add: prefs_handle_def has_key_def prefs_text_def st0_simps defaultPrefs_def
        show_bool_def Let_def)
  show ?thesis
    unfolding r p by (simp add: log_def st0_simps)
qed

text \<open>
  C5. The claim: a handler called with a semantically invalid argument changes none of
  the five stores. The guards \<open>key in prefs.get()\<close> and \<open>role in Role\<close> also accept
  inherited keys. The code at two such invocations: \<open>prefs toString on\<close> (no such
  preference) writes \<open>toString: true\<close> to the preferences; \<open>role bob __proto__\<close> (no such
  role) writes a record for \<open>bob\<close> to the users, with the inherited member as the role.
\<close>

theorem inherited_keys_pass_the_guards:
  "''toString'' \<notin> dom (prefs st0) \<and>
   prefs (prefs_handle alice ''toString'' ''on'' st0) = (prefs st0)(''toString'' \<mapsto> True) \<and>
   stores (prefs_handle alice ''toString'' ''on'' st0) \<noteq> stores st0 \<and>
   roleByName ''__proto__'' = None \<and>
   users (role_handle alice ''bob'' ''__proto__'' st0)
     = (users st0)(''bob'' \<mapsto> \<lparr>name = ''bob'', role = Inherited ''__proto__''\<rparr>) \<and>
   stores (role_handle alice ''bob'' ''__proto__'' st0) \<noteq> stores st0"
proof -
  have a: "''toString'' \<notin> dom (prefs st0)"
    by (simp add: st0_simps defaultPrefs_def)
  have k: "has_key ''toString'' (prefs st0)"
    by (simp add: has_key_def Object_prototype_keys_def)
  have p: "prefs (prefs_handle alice ''toString'' ''on'' st0) = (prefs st0)(''toString'' \<mapsto> True)"
    by (simp add: prefs_handle_def k Let_def log_def)
  have pn: "prefs (prefs_handle alice ''toString'' ''on'' st0) \<noteq> prefs st0"
  proof
    assume "prefs (prefs_handle alice ''toString'' ''on'' st0) = prefs st0"
    then have "((prefs st0)(''toString'' \<mapsto> True)) ''toString'' = prefs st0 ''toString''"
      using p by simp
    then show False by (simp add: st0_simps defaultPrefs_def)
  qed
  have n: "isNaN_Number ''__proto__''"
    by (simp add: numeric_defs is_digit_def)
  have m: "normalized ''__proto__'' = ''__proto__''"
    by (simp add: normalized_def string_defs)
  have rb: "roleByName ''__proto__'' = None"
    by (simp add: roleByName_def n m)
  have ru: "users (role_handle alice ''bob'' ''__proto__'' st0)
     = (users st0)(''bob'' \<mapsto> \<lparr>name = ''bob'', role = Inherited ''__proto__''\<rparr>)"
    by (simp add: role_handle_users rb n m)
  have rn: "users (role_handle alice ''bob'' ''__proto__'' st0) \<noteq> users st0"
  proof
    assume "users (role_handle alice ''bob'' ''__proto__'' st0) = users st0"
    then have "((users st0)(''bob'' \<mapsto> \<lparr>name = ''bob'', role = Inherited ''__proto__''\<rparr>)) ''bob''
                 = users st0 ''bob''"
      using ru by simp
    then show False by (simp add: st0_simps)
  qed
  from a p pn rb ru rn show ?thesis by (simp add: stores_def)
qed

text \<open>
  C7. The claim: the role string is normalized and matched against None, User, Editor and
  Streamer, and nothing else updates the users. The code at \<open>role bob __proto__\<close>: the
  string is not numeric-looking, its normal form is itself and is none of the role names,
  and \<open>role in Role\<close> is true of it; the users get a record for \<open>bob\<close> and the log says
  that the role was set.
\<close>

theorem role_proto_updates_users:
  "isNaN_Number ''__proto__'' \<and>
   capitalize (toLowerCase ''__proto__'') = ''__proto__'' \<and>
   ''__proto__'' \<notin> set roles \<and>
   users (role_handle alice ''bob'' ''__proto__'' st0) ''bob''
     = Some \<lparr>name = ''bob'', role = Inherited ''__proto__''\<rparr> \<and>
   console (role_handle alice ''bob'' ''__proto__'' st0)
     = [''alice set role of bob to __proto__'']"
proof -
  have n: "isNaN_Number ''__proto__''"
    by (simp add: numeric_defs is_digit_def)
  have c: "capitalize (toLowerCase ''__proto__'') = ''__proto__''"
    by (simp add: string_defs)
  have k: "has_key ''__proto__'' Role_obj"
    by (simp add: has_key_def Object_prototype_keys_def)
  have v: "Role_member ''__proto__'' = Inherited ''__proto__''"
    by (simp add: Role_member_def Role_obj_def)
  have r: "''__proto__'' \<notin> set roles"
    by (simp add: roles_names)
  have h: "role_handle alice ''bob'' ''__proto__'' st0 =
             log ''alice set role of bob to __proto__''
               (st0\<lparr>users := (users st0)(''bob'' \<mapsto> \<lparr>name = ''bob'', role = Inherited ''__proto__''\<rparr>)\<rparr>)"
    by (simp add: role_handle_def n c k v Let_def alice_def)
  show ?thesis
    unfolding h using n c r by (simp add: log_def st0_simps)
qed

text \<open>
  C8. The claim: at every place that resolves an alias (play and both cooldown
  operations) the name is lowercased before the lookup. The code with the alias \<open>bm\<close>
  for the sound \<open>boom\<close>: \<open>play BM\<close> plays \<open>boom\<close>; \<open>cooldown set user BM 1m\<close> and
  \<open>cooldown rm user BM\<close> look \<open>BM\<close> up as it is, find no alias and no sound, and change
  nothing; \<open>cooldown set user bm 1m\<close> sets the cooldown of \<open>boom\<close>.
\<close>

theorem cooldown_alias_lookup_is_case_sensitive:
  "invoked (player (play_handle alice ''BM'' st1)) = [Play_call ''boom'' ''alice''] \<and>
   cooldown_set_handle Which_user alice ''BM'' ''1m'' st1 = st1 \<and>
   cooldown_rm_handle Which_user alice ''BM'' st1 = st1 \<and>
   cooldowns (cooldown_set_handle Which_user alice ''bm'' ''1m'' st1) ''boom''
     = Some \<lparr>perUser = 60000, perSound = 3000\<rparr>"
proof -
  have l: "toLowerCase ''BM'' = ''bm''"
    by (simp add: string_defs)
  have p: "invoked (player (play_handle alice ''BM'' st1)) = [Play_call ''boom'' ''alice'']"
    by (simp add: play_handle_def l resolve_def st1_simps truthy_def Let_def log_def
        Player_play_def alice_def st1_def st0_def initial_def channel_def)
  have s: "cooldown_set_handle Which_user alice ''BM'' ''1m'' st1 = st1"
    by (simp add: cooldown_set_handle_def resolve_def st1_simps Let_def)
  have r: "cooldown_rm_handle Which_user alice ''BM'' st1 = st1"
    by (simp add: cooldown_rm_handle_def resolve_def st1_simps Let_def)
  have t: "cooldowns (cooldown_set_handle Which_user alice ''bm'' ''1m'' st1) ''boom''
     = Some \<lparr>perUser = 60000, perSound = 3000\<rparr>"
    by (simp add: cooldown_set_handle_def resolve_def st1_simps Let_def log_def
        preset_defs scan_defs)
  from p s r t show ?thesis by simp
qed




text \<open>
  C10. Without a channel (an empty location hash), \<open>storeKey\<close> returns the same fixed
  string for every key name, and the five stores are created under that one key.
\<close>

theorem storeKey_without_channel:
  "channel [] = None \<and> storeKey key None = ''[[empty]]'' \<and>
   Stores_keys (channel []) = replicate 5 ''[[empty]]''"
  by (simp add: channel_def storeKey_def Stores_keys_def numeral_eq_Suc)

end
